theory Spec2Isabelle
  imports Main "HOL-Library.AList" "HOL-Library.Monad_Syntax" "HOL-Library.Sublist"
begin

section \<open>Strings and numbers of the host language\<close>

text \<open>
  A string of the program is a list of characters. The pattern class \<open>\d\<close> of the
  version grammar is the ten ASCII digits; \<open>.\<close> in a pattern is every character but a
  line terminator (line feed and carriage return among the 8-bit characters).

  The number fields of a version are integer valued: they are \<open>int\<close> here, so that
  "non-negative" is a property to prove and not a typing accident. The model is exact
  below \<open>2^53\<close>, where the program's arithmetic is exact on integers.
\<close>

definition isDigit :: "char \<Rightarrow> bool" where
  "isDigit c = (c \<in> set ''0123456789'')"

definition isLineTerminator :: "char \<Rightarrow> bool" where
  "isLineTerminator c = (c = CHR 0x0A \<or> c = CHR 0x0D)"

definition digitVal :: "char \<Rightarrow> int" where
  "digitVal c = int (of_char c) - 48"

definition digitChar :: "nat \<Rightarrow> char" where
  "digitChar d = ''0123456789'' ! d"

text \<open>\<open>parseInt(str, 10)\<close> on a string of digits (the only strings the grammar hands it).\<close>

definition parseInt :: "string \<Rightarrow> int" where
  "parseInt ds = foldl (\<lambda>acc c. acc * 10 + digitVal c) 0 ds"

function showNat :: "nat \<Rightarrow> string" where
  "showNat n = (if n < 10 then [digitChar n] else showNat (n div 10) @ [digitChar (n mod 10)])"
  by pat_completeness auto
termination
  by (relation "measure id") auto

declare showNat.simps [simp del]

text \<open>What a template literal \<open>`${n}`\<close> prints for an integer \<open>n\<close>.\<close>

definition numberToString :: "int \<Rightarrow> string" where
  "numberToString n = (if n < 0 then CHR ''-'' # showNat (nat (- n)) else showNat (nat n))"

section \<open>The version model (version.ts)\<close>

record SemanticVersion =
  major :: int
  minor :: int
  patch :: int
  build :: "string option"

text \<open>
  \<open>SemanticVersionSchema\<close>: the three numbers are non-negative integers; \<open>build\<close> is
  any string, or absent.
\<close>

definition SemanticVersionSchema :: "SemanticVersion \<Rightarrow> bool" where
  "SemanticVersionSchema v = (0 \<le> major v \<and> 0 \<le> minor v \<and> 0 \<le> patch v)"

text \<open>
  \<open>parseVersion\<close> matches \<open>/^(\d+)\.(\d+)\.(\d+)(?:-(.+))?$/\<close>. A greedy \<open>\d+\<close> followed
  by a character that is no digit cannot give digits back, so the match is a
  deterministic scan, one function per piece of the pattern: \<open>(\d+)\<close>, \<open>\.\<close> and
  \<open>(?:-(.+))?$\<close>. \<open>None\<close> is "no match".
\<close>

definition digitGroup :: "string \<Rightarrow> (string \<times> string) option" where
  "digitGroup s =
     (if takeWhile isDigit s = [] then None
      else Some (takeWhile isDigit s, dropWhile isDigit s))"

definition literalDot :: "string \<Rightarrow> string option" where
  "literalDot s = (case s of [] \<Rightarrow> None | c # r \<Rightarrow> if c = CHR ''.'' then Some r else None)"

definition buildGroup :: "string \<Rightarrow> string option option" where
  "buildGroup s =
     (case s of
        [] \<Rightarrow> Some None
      | c # b \<Rightarrow>
          if c = CHR ''-'' \<and> b \<noteq> [] \<and> list_all (\<lambda>x. \<not> isLineTerminator x) b
          then Some (Some b) else None)"

text \<open>
  \<open>parseVersion\<close>: \<open>None\<close> is the \<open>null\<close> of the source, returned when the pattern
  does not match or when the schema rejects the object. \<open>build\<close> is set only when the
  captured group is truthy.
\<close>

definition parseVersion :: "string \<Rightarrow> SemanticVersion option" where
  "parseVersion version =
     do {
       (majorStr, r1) \<leftarrow> digitGroup version;
       r2 \<leftarrow> literalDot r1;
       (minorStr, r3) \<leftarrow> digitGroup r2;
       r4 \<leftarrow> literalDot r3;
       (patchStr, r5) \<leftarrow> digitGroup r4;
       b \<leftarrow> buildGroup r5;
       let semanticVersion = \<lparr>major = parseInt majorStr, minor = parseInt minorStr,
                               patch = parseInt patchStr, build = b\<rparr>;
       if SemanticVersionSchema semanticVersion then Some semanticVersion else None
     }"

definition formatVersion :: "SemanticVersion \<Rightarrow> string" where
  "formatVersion version =
     (let core = numberToString (major version) @ ''.'' @ numberToString (minor version)
                 @ ''.'' @ numberToString (patch version)
      in case build version of
           Some b \<Rightarrow> if b \<noteq> [] then core @ ''-'' @ b else core
         | None \<Rightarrow> core)"

datatype part = Major | Minor | Patch

datatype direction = Up | Down

definition getPart :: "SemanticVersion \<Rightarrow> part \<Rightarrow> int" where
  "getPart v p = (case p of Major \<Rightarrow> major v | Minor \<Rightarrow> minor v | Patch \<Rightarrow> patch v)"

definition setPart :: "SemanticVersion \<Rightarrow> part \<Rightarrow> int \<Rightarrow> SemanticVersion" where
  "setPart v p n =
     (case p of Major \<Rightarrow> v\<lparr>major := n\<rparr> | Minor \<Rightarrow> v\<lparr>minor := n\<rparr> | Patch \<Rightarrow> v\<lparr>patch := n\<rparr>)"

definition adjustVersionPart :: "SemanticVersion \<Rightarrow> part \<Rightarrow> direction \<Rightarrow> SemanticVersion" where
  "adjustVersionPart version p d =
     (case d of
        Up \<Rightarrow>
          (let newVersion = setPart version p (getPart version p + 1) in
           case p of
             Major \<Rightarrow> newVersion\<lparr>minor := 0, patch := 0\<rparr>
           | Minor \<Rightarrow> newVersion\<lparr>patch := 0\<rparr>
           | Patch \<Rightarrow> newVersion)
      | Down \<Rightarrow>
          (if getPart version p > 0 then setPart version p (getPart version p - 1)
           else version))"

text \<open>
  The data model's invariant: the schema, and a build tag that is never the empty
  string.
\<close>

definition validVersion :: "SemanticVersion \<Rightarrow> bool" where
  "validVersion v = (SemanticVersionSchema v \<and> build v \<noteq> Some [])"

subsection \<open>Predicates on versions and version strings\<close>





section \<open>The files the commands read and write\<close>

text \<open>
  The file system as the commands see it. A regular file has its text and says whether
  reading and writing it succeed; \<open>readFileSync\<close> and \<open>writeFileSync\<close> throw
  otherwise. On a path that is no file \<open>readFileSync\<close> throws and \<open>writeFileSync\<close>
  makes the file. A directory is given with what
  \<open>glob('**/*', {cwd, nodir, dot, follow: false})\<close> lists under it, each entry already
  joined with the directory's path. \<open>written\<close> records the calls of \<open>writeFileSync\<close>
  that returned, oldest first, and \<open>warnings\<close> the calls of \<open>warning\<close>.
\<close>

type_synonym path = string

datatype exception = ENOENT | EACCES | SyntaxError | TypeError

record regularFile =
  content :: string
  readable :: bool
  writable :: bool

record world =
  files :: "path \<rightharpoonup> regularFile"
  dirs :: "path \<rightharpoonup> path list"
  written :: "(path \<times> string) list"
  warnings :: "string list"

definition readFileSync :: "world \<Rightarrow> path \<Rightarrow> exception + string" where
  "readFileSync w p =
     (case files w p of
        None \<Rightarrow> Inl ENOENT
      | Some f \<Rightarrow> if readable f then Inr (content f) else Inl EACCES)"

definition writeFileSync :: "world \<Rightarrow> path \<Rightarrow> string \<Rightarrow> exception + world" where
  "writeFileSync w p c =
     (case files w p of
        None \<Rightarrow>
          Inr (w\<lparr>files := (files w)(p \<mapsto> \<lparr>content = c, readable = True, writable = True\<rparr>),
                  written := written w @ [(p, c)]\<rparr>)
      | Some f \<Rightarrow>
          if writable f
          then Inr (w\<lparr>files := (files w)(p \<mapsto> f\<lparr>content := c\<rparr>),
                       written := written w @ [(p, c)]\<rparr>)
          else Inl EACCES)"

section \<open>Patterns and replacement (the host's RegExp and String.replace)\<close>

text \<open>\<open>content.includes(subject)\<close>: the subject occurs in the content, as a substring.\<close>

fun stringIncludes :: "string \<Rightarrow> string \<Rightarrow> bool" where
  "stringIncludes [] p = (p = [])"
| "stringIncludes (c # cs) p = (prefix p (c # cs) \<or> stringIncludes cs p)"

text \<open>
  \<open>content.replace(new RegExp(subject, 'g'), versionString)\<close> reads the subject as the
  source of a pattern. The model covers the patterns made of ordinary characters and
  of \<open>.\<close>, which matches every character but a line terminator: \<open>compilePattern\<close> is
  \<open>None\<close> on an empty source and on a source with any other syntax character
  (\<open>^ $ \ * + ? ( ) [ ] { } |\<close>).
\<close>

datatype atom = Lit char | AnyChar

definition isSyntaxCharacter :: "char \<Rightarrow> bool" where
  "isSyntaxCharacter c = (c \<in> set ''^$.*+?()[]{}|'' \<or> c = CHR 0x5C)"

definition compilePattern :: "string \<Rightarrow> atom list option" where
  "compilePattern src =
     (if src \<noteq> [] \<and> list_all (\<lambda>c. c = CHR ''.'' \<or> \<not> isSyntaxCharacter c) src
      then Some (map (\<lambda>c. if c = CHR ''.'' then AnyChar else Lit c) src)
      else None)"

fun matchesAtom :: "atom \<Rightarrow> char \<Rightarrow> bool" where
  "matchesAtom (Lit a) c = (a = c)"
| "matchesAtom AnyChar c = (\<not> isLineTerminator c)"

text \<open>The pattern matches at the start of the string.\<close>

fun matchPrefix :: "atom list \<Rightarrow> string \<Rightarrow> bool" where
  "matchPrefix [] s = True"
| "matchPrefix (a # as) [] = False"
| "matchPrefix (a # as) (c # cs) = (matchesAtom a c \<and> matchPrefix as cs)"

text \<open>
  The replacement text of one match (GetSubstitution, for a pattern without capture
  groups): \<open>$$\<close> is a dollar sign, \<open>$&\<close> the matched text, \<open>$`\<close> the text before the
  match and \<open>$'\<close> the text after it; every other character, a \<open>$\<close> in front of a digit
  included, stands for itself.
\<close>

fun getSubstitution :: "string \<Rightarrow> string \<Rightarrow> string \<Rightarrow> string \<Rightarrow> string" where
  "getSubstitution matched preceding following [] = []"
| "getSubstitution matched preceding following [c] = [c]"
| "getSubstitution matched preceding following (c # d # r) =
     (if c = CHR ''$'' then
        (if d = CHR ''$'' then CHR ''$'' # getSubstitution matched preceding following r
         else if d = CHR ''&'' then matched @ getSubstitution matched preceding following r
         else if d = CHR 0x60 then preceding @ getSubstitution matched preceding following r
         else if d = CHR 0x27 then following @ getSubstitution matched preceding following r
         else c # getSubstitution matched preceding following (d # r))
      else c # getSubstitution matched preceding following (d # r))"

text \<open>
  The global replacement: scan left to right; where the pattern matches, put the
  replacement text and go on behind the match; elsewhere copy one character.
  \<open>preceding\<close> is the text already scanned. The pattern is never empty
  (\<open>compilePattern\<close> gives none), and the function leaves the string as it is
  there.
\<close>

function replaceMatches :: "atom list \<Rightarrow> string \<Rightarrow> string \<Rightarrow> string \<Rightarrow> string" where
  "replaceMatches pat repl preceding s =
     (if pat = [] \<or> s = [] then s
      else if matchPrefix pat s
      then getSubstitution (take (length pat) s) preceding (drop (length pat) s) repl
           @ replaceMatches pat repl (preceding @ take (length pat) s) (drop (length pat) s)
      else hd s # replaceMatches pat repl (preceding @ [hd s]) (tl s))"
  by pat_completeness auto
termination
  by (relation "measure (\<lambda>(pat, repl, preceding, s). length s)") auto

declare replaceMatches.simps [simp del]

definition regExpReplace :: "string \<Rightarrow> string \<Rightarrow> string \<Rightarrow> string option" where
  "regExpReplace subject versionString fileContent =
     map_option (\<lambda>pat. replaceMatches pat versionString [] fileContent) (compilePattern subject)"

text \<open>
  The replacement the spec describes: every literal occurrence of the placeholder,
  left to right and without overlap, becomes the version string. The placeholder is
  never empty.
\<close>

function literalReplaceAll :: "string \<Rightarrow> string \<Rightarrow> string \<Rightarrow> string" where
  "literalReplaceAll p r s =
     (if p = [] \<or> s = [] then s
      else if prefix p s then r @ literalReplaceAll p r (drop (length p) s)
      else hd s # literalReplaceAll p r (tl s))"
  by pat_completeness auto
termination
  by (relation "measure (\<lambda>(p, r, s). length s)") auto

declare literalReplaceAll.simps [simp del]

section \<open>The copy command (commands.ts): finding and rewriting the files\<close>

text \<open>
  The commands take the pattern replacement of the host as a parameter \<open>rx\<close>:
  \<open>rx subject versionString content\<close> is the new content, or \<open>None\<close> when
  \<open>new RegExp(subject, 'g')\<close> throws. \<open>regExpReplace\<close> is such a function, on the
  patterns it covers.

  One turn of the rewriting loop (lines 137 to 153): read, replace, write if the text
  changed and count the write; whatever is thrown inside is caught and becomes a
  warning.
\<close>

definition rewriteFile ::
  "(string \<Rightarrow> string \<Rightarrow> string \<Rightarrow> string option) \<Rightarrow> string \<Rightarrow> string \<Rightarrow> world \<times> nat \<Rightarrow> path \<Rightarrow> world \<times> nat"
where
  "rewriteFile rx subject versionString st filePath =
     (let w = fst st; updatedCount = snd st;
          caught = (w\<lparr>warnings := warnings w @ [''Failed to update '' @ filePath]\<rparr>, updatedCount)
      in case readFileSync w filePath of
           Inl e \<Rightarrow> caught
         | Inr originalContent \<Rightarrow>
             (case rx subject versionString originalContent of
                None \<Rightarrow> caught
              | Some fileContent \<Rightarrow>
                  if fileContent \<noteq> originalContent
                  then (case writeFileSync w filePath fileContent of
                          Inl e \<Rightarrow> caught
                        | Inr w' \<Rightarrow> (w', updatedCount + 1))
                  else (w, updatedCount)))"

definition rewriteFiles ::
  "(string \<Rightarrow> string \<Rightarrow> string \<Rightarrow> string option) \<Rightarrow> string \<Rightarrow> string \<Rightarrow> world \<Rightarrow> path list \<Rightarrow> world \<times> nat"
where
  "rewriteFiles rx subject versionString w filesToUpdate =
     foldl (rewriteFile rx subject versionString) (w, 0) filesToUpdate"

text \<open>
  The filtering loop (lines 105 to 112): read every listed file and keep the ones
  whose text includes the subject. Nothing catches a failing read here: it leaves the
  loop, for the handler's outer \<open>catch\<close>.
\<close>

fun filterFiles :: "world \<Rightarrow> string \<Rightarrow> path list \<Rightarrow> exception + path list" where
  "filterFiles w subject [] = Inr []"
| "filterFiles w subject (filePath # rest) =
     (case readFileSync w filePath of
        Inl e \<Rightarrow> Inl e
      | Inr fileContent \<Rightarrow>
          (case filterFiles w subject rest of
             Inl e \<Rightarrow> Inl e
           | Inr kept \<Rightarrow> Inr (if stringIncludes fileContent subject then filePath # kept else kept)))"

text \<open>
  How an invocation ends: the outer \<open>catch\<close> (\<open>Failed to copy version\<close>), the spinner's
  failure for a target that is neither file nor directory, its note that no file has
  the subject, or its summary \<open>Updated n of m files with version v\<close>.
\<close>

datatype outcome =
  CopyFailed exception
  | TargetMissing
  | NoFilesFound string
  | Updated nat nat string

text \<open>\<open>options.subject || '__VERSION__'\<close>: an absent or empty subject gives the default.\<close>

definition effectiveSubject :: "string option \<Rightarrow> string" where
  "effectiveSubject subjectOption =
     (case subjectOption of
        None \<Rightarrow> ''__VERSION__''
      | Some s \<Rightarrow> if s \<noteq> [] then s else ''__VERSION__'')"

text \<open>
  Lines 83 to 155 of \<open>handleCopyTo\<close>, what the handler does once it has the manifest's
  version: format the version, choose the subject, find the files to update under
  the target (a directory when \<open>dirs\<close> has it, a file when \<open>files\<close> has it), rewrite
  them and report. An exception that leaves the filtering is the one the handler's
  outer \<open>catch\<close> reports.
\<close>

definition copyToFiles ::
  "(string \<Rightarrow> string \<Rightarrow> string \<Rightarrow> string option) \<Rightarrow> world \<Rightarrow> path \<Rightarrow> string option \<Rightarrow> SemanticVersion \<Rightarrow> world \<times> outcome"
where
  "copyToFiles rx w targetPath subjectOption version =
     (let versionString = formatVersion version;
          subject = effectiveSubject subjectOption;
          found = (case dirs w targetPath of
                     Some listing \<Rightarrow> map_sum CopyFailed id (filterFiles w subject listing)
                   | None \<Rightarrow>
                       (case files w targetPath of
                          None \<Rightarrow> Inl TargetMissing
                        | Some f \<Rightarrow>
                            (case readFileSync w targetPath of
                               Inl e \<Rightarrow> Inl (CopyFailed e)
                             | Inr fileContent \<Rightarrow>
                                 Inr (if stringIncludes fileContent subject then [targetPath] else []))))
      in case found of
           Inl stop \<Rightarrow> (w, stop)
         | Inr filesToUpdate \<Rightarrow>
             if filesToUpdate = [] then (w, NoFilesFound subject)
             else (let done = rewriteFiles rx subject versionString w filesToUpdate
                   in (fst done, Updated (snd done) (length filesToUpdate) versionString)))"

section \<open>Notions the claims about the copy command use\<close>

text \<open>
  What the rewriting loop does with one candidate, read off the file system as it is
  before the loop starts: the candidate is rewritten with a new text when the read,
  the replacement and the write succeed and the text changes; it is left untouched
  when the text does not change; it fails when the read, the pattern or the write
  throws.
\<close>

datatype fate = Rewritten string | Untouched | Failed

definition candidateFate ::
  "(string \<Rightarrow> string \<Rightarrow> string \<Rightarrow> string option) \<Rightarrow> string \<Rightarrow> string \<Rightarrow> world \<Rightarrow> path \<Rightarrow> fate"
where
  "candidateFate rx subject versionString w p =
     (case readFileSync w p of
        Inl e \<Rightarrow> Failed
      | Inr c \<Rightarrow>
          (case rx subject versionString c of
             None \<Rightarrow> Failed
           | Some c' \<Rightarrow>
               if c' = c then Untouched
               else if isl (writeFileSync w p c') then Failed else Rewritten c'))"

text \<open>One warning for each candidate that fails, in the order of the candidates.\<close>

definition warningsFor :: "(path \<Rightarrow> fate) \<Rightarrow> path list \<Rightarrow> string list" where
  "warningsFor fateOf ps =
     map (\<lambda>p. ''Failed to update '' @ p) (filter (\<lambda>p. fateOf p = Failed) ps)"

text \<open>One write for each candidate whose write succeeds, with the text written.\<close>

definition writesFor :: "(path \<Rightarrow> fate) \<Rightarrow> path list \<Rightarrow> (path \<times> string) list" where
  "writesFor fateOf ps =
     List.map_filter (\<lambda>p. case fateOf p of Rewritten c \<Rightarrow> Some (p, c) | _ \<Rightarrow> None) ps"

text \<open>The files once every candidate is processed: the rewritten ones hold their new text.\<close>

definition filesAfter ::
  "(path \<Rightarrow> fate) \<Rightarrow> path list \<Rightarrow> (path \<rightharpoonup> regularFile) \<Rightarrow> (path \<rightharpoonup> regularFile)"
where
  "filesAfter fateOf ps fs =
     (\<lambda>p. if p \<in> set ps
          then (case fateOf p of
                  Rewritten c \<Rightarrow> map_option (\<lambda>f. f\<lparr>content := c\<rparr>) (fs p)
                | _ \<Rightarrow> fs p)
          else fs p)"





definition textOf :: "world \<Rightarrow> path \<Rightarrow> string" where
  "textOf w p = (case files w p of Some f \<Rightarrow> content f | None \<Rightarrow> [])"

subsection \<open>Example file systems\<close>

text \<open>A directory of three files: the first cannot be read, the last cannot be written.\<close>

definition mixedWorld :: world where
  "mixedWorld =
     \<lparr>files = [''proj/a.txt'' \<mapsto> \<lparr>content = ''a = __VERSION__'', readable = False, writable = True\<rparr>,
               ''proj/b.txt'' \<mapsto> \<lparr>content = ''b = __VERSION__'', readable = True, writable = True\<rparr>,
               ''proj/c.txt'' \<mapsto> \<lparr>content = ''c = __VERSION__'', readable = True, writable = False\<rparr>],
      dirs = [''proj'' \<mapsto> [''proj/a.txt'', ''proj/b.txt'', ''proj/c.txt'']],
      written = [], warnings = []\<rparr>"

text \<open>One file; \<open>text\<close> is what it holds.\<close>

definition oneFileWorld :: "string \<Rightarrow> world" where
  "oneFileWorld text =
     \<lparr>files = [''a.txt'' \<mapsto> \<lparr>content = text, readable = True, writable = True\<rparr>],
      dirs = Map.empty, written = [], warnings = []\<rparr>"


section \<open>The manifest (version.ts) and the version commands (commands.ts)\<close>

text \<open>
  A JSON value as \<open>JSON.parse\<close> returns it. An object is the list of its
  properties in the order the host enumerates them; a number is kept as the text the
  serializer prints for it.
\<close>

datatype json =
  JNull
  | JBool bool
  | JNumber string
  | JString string
  | JArray "json list"
  | JObject "(string \<times> json) list"

text \<open>
  \<open>JSON.stringify(value, null, 2)\<close>: strings are quoted with the escapes of
  QuoteJSONString; a non-empty array or object puts each element on a line of its
  own, two spaces deeper than the line that opens it; empty ones are \<open>[]\<close> and \<open>{}\<close>.
\<close>

definition hexDigit :: "nat \<Rightarrow> char" where
  "hexDigit d = ''0123456789abcdef'' ! d"

definition quoteChar :: "char \<Rightarrow> string" where
  "quoteChar c =
     (if c = CHR 0x22 then [CHR 0x5C, CHR 0x22]
      else if c = CHR 0x5C then [CHR 0x5C, CHR 0x5C]
      else if c = CHR 0x08 then [CHR 0x5C, CHR ''b'']
      else if c = CHR 0x0C then [CHR 0x5C, CHR ''f'']
      else if c = CHR 0x0A then [CHR 0x5C, CHR ''n'']
      else if c = CHR 0x0D then [CHR 0x5C, CHR ''r'']
      else if c = CHR 0x09 then [CHR 0x5C, CHR ''t'']
      else if (of_char c :: nat) < 32
      then [CHR 0x5C, CHR ''u'', CHR ''0'', CHR ''0'',
            hexDigit ((of_char c :: nat) div 16), hexDigit ((of_char c :: nat) mod 16)]
      else [c])"

definition quoteJSONString :: "string \<Rightarrow> string" where
  "quoteJSONString s = [CHR 0x22] @ concat (map quoteChar s) @ [CHR 0x22]"

fun joinWith :: "string \<Rightarrow> string list \<Rightarrow> string" where
  "joinWith sep [] = []"
| "joinWith sep [x] = x"
| "joinWith sep (x # y # r) = x @ sep @ joinWith sep (y # r)"

fun serializeJSON :: "string \<Rightarrow> string \<Rightarrow> json \<Rightarrow> string" where
  "serializeJSON gap indent JNull = ''null''"
| "serializeJSON gap indent (JBool b) = (if b then ''true'' else ''false'')"
| "serializeJSON gap indent (JNumber n) = n"
| "serializeJSON gap indent (JString s) = quoteJSONString s"
| "serializeJSON gap indent (JArray xs) =
     (if xs = [] then ''[]''
      else ''['' @ [CHR 0x0A] @ (indent @ gap)
           @ joinWith ('','' @ [CHR 0x0A] @ (indent @ gap))
               (map (serializeJSON gap (indent @ gap)) xs)
           @ [CHR 0x0A] @ indent @ '']'')"
| "serializeJSON gap indent (JObject kvs) =
     (if kvs = [] then ''{}''
      else ''{'' @ [CHR 0x0A] @ (indent @ gap)
           @ joinWith ('','' @ [CHR 0x0A] @ (indent @ gap))
               (map (\<lambda>kv. quoteJSONString (fst kv) @ '': ''
                            @ serializeJSON gap (indent @ gap) (snd kv)) kvs)
           @ [CHR 0x0A] @ indent @ ''}'')"

definition JSONstringify :: "json \<Rightarrow> string" where
  "JSONstringify j = serializeJSON ''  '' [] j"

text \<open>
  \<open>packageJson.version = ...\<close>: on an object the property is set where it stands, or
  added last when the object has none; on an array the assignment succeeds and the
  serializer never sees the property; on \<open>null\<close> and on a primitive it throws (the
  module is strict code).
\<close>

definition setVersionField :: "json \<Rightarrow> string \<Rightarrow> exception + json" where
  "setVersionField packageJson s =
     (case packageJson of
        JObject kvs \<Rightarrow> Inr (JObject (AList.update ''version'' (JString s) kvs))
      | JArray xs \<Rightarrow> Inr (JArray xs)
      | _ \<Rightarrow> Inl TypeError)"

text \<open>\<open>packageJson.version\<close>, read: throws on \<open>null\<close>, is \<open>undefined\<close> where there is none.\<close>

definition getVersionField :: "json \<Rightarrow> exception + json option" where
  "getVersionField packageJson =
     (case packageJson of
        JNull \<Rightarrow> Inl TypeError
      | JObject kvs \<Rightarrow> Inr (map_of kvs ''version'')
      | _ \<Rightarrow> Inr None)"

text \<open>
  The functions below take \<open>JSON.parse\<close> as the parameter \<open>jsonParse\<close>, \<open>None\<close> when it
  throws. Their calls of \<open>error\<close> print a message and change nothing that is returned
  or written; the model leaves them out. Every exception ends in the \<open>catch\<close>, which
  returns \<open>null\<close> or \<open>false\<close>.
\<close>

definition readPackageVersion ::
  "(string \<Rightarrow> json option) \<Rightarrow> world \<Rightarrow> path \<Rightarrow> SemanticVersion option"
where
  "readPackageVersion jsonParse w packagePath =
     (case readFileSync w packagePath of
        Inl e \<Rightarrow> None
      | Inr packageContent \<Rightarrow>
          (case jsonParse packageContent of
             None \<Rightarrow> None
           | Some packageJson \<Rightarrow>
               (case getVersionField packageJson of
                  Inl e \<Rightarrow> None
                | Inr None \<Rightarrow> None
                | Inr (Some field) \<Rightarrow>
                    (case field of
                       JString s \<Rightarrow> if s = [] then None else parseVersion s
                     | _ \<Rightarrow> None))))"

definition updatePackageVersion ::
  "(string \<Rightarrow> json option) \<Rightarrow> world \<Rightarrow> path \<Rightarrow> SemanticVersion \<Rightarrow> world \<times> bool"
where
  "updatePackageVersion jsonParse w packagePath version =
     (case readFileSync w packagePath of
        Inl e \<Rightarrow> (w, False)
      | Inr packageContent \<Rightarrow>
          (case jsonParse packageContent of
             None \<Rightarrow> (w, False)
           | Some packageJson \<Rightarrow>
               (case setVersionField packageJson (formatVersion version) of
                  Inl e \<Rightarrow> (w, False)
                | Inr updated \<Rightarrow>
                    (case writeFileSync w packagePath (JSONstringify updated @ [CHR 0x0A]) of
                       Inl e \<Rightarrow> (w, False)
                     | Inr w' \<Rightarrow> (w', True)))))"

text \<open>
  \<open>findPackageJson\<close>: \<open>package.json\<close> directly inside the start directory, a
  normalised path with no slash at its end.
\<close>

definition findPackageJson :: "world \<Rightarrow> path \<Rightarrow> path option" where
  "findPackageJson w startDir =
     (let packagePath = startDir @ ''/package.json''
      in if files w packagePath \<noteq> None \<or> dirs w packagePath \<noteq> None
         then Some packagePath else None)"

text \<open>\<open>validatePath(path, 'file')\<close>: the path exists and is a regular file.\<close>

definition validatePath :: "world \<Rightarrow> path \<Rightarrow> bool" where
  "validatePath w p = (files w p \<noteq> None)"

text \<open>
  The options of a command: \<open>package\<close>, \<open>type\<close>, \<open>subject\<close>, \<open>up\<close> and \<open>down\<close>.
  \<open>OptionsSchema\<close> has each field optional, of its type, and the project type one of
  \<open>node\<close>.
\<close>

record Options =
  opt_package :: "string option"
  opt_type :: "string option"
  opt_subject :: "string option"
  opt_up :: "bool option"
  opt_down :: "bool option"

definition OptionsSchema :: "Options \<Rightarrow> bool" where
  "OptionsSchema options =
     (case opt_type options of None \<Rightarrow> True | Some t \<Rightarrow> t = ''node'')"

text \<open>Lines 180 to 183: up, unless \<open>options.down\<close> is truthy.\<close>

definition chosenDirection :: "Options \<Rightarrow> direction" where
  "chosenDirection options = (if opt_down options = Some True then Down else Up)"

text \<open>\<open>options.package || findPackageJson(process.cwd())\<close>.\<close>

definition manifestPath :: "world \<Rightarrow> path \<Rightarrow> Options \<Rightarrow> path option" where
  "manifestPath w cwd options =
     (case opt_package options of
        None \<Rightarrow> findPackageJson w cwd
      | Some p \<Rightarrow> if p \<noteq> [] then Some p else findPackageJson w cwd)"

text \<open>
  How a handler ends before it does its work: the parameters fail their schemas, no
  manifest is found, the manifest's path is no file, or no version can be read.
\<close>

datatype refusal = InvalidParameters | NoManifest | InvalidManifestPath | NoVersion

datatype updateOutcome = VersionUpdated string string | UpdateFailed

definition handleUpdateVersionPart ::
  "(string \<Rightarrow> json option) \<Rightarrow> world \<Rightarrow> path \<Rightarrow> part \<Rightarrow> Options
     \<Rightarrow> world \<times> (refusal + updateOutcome)"
where
  "handleUpdateVersionPart jsonParse w cwd p options =
     (if \<not> OptionsSchema options then (w, Inl InvalidParameters)
      else
        let direction = chosenDirection options in
        case manifestPath w cwd options of
          None \<Rightarrow> (w, Inl NoManifest)
        | Some packagePath \<Rightarrow>
            if \<not> validatePath w packagePath then (w, Inl InvalidManifestPath)
            else
              (case readPackageVersion jsonParse w packagePath of
                 None \<Rightarrow> (w, Inl NoVersion)
               | Some currentVersion \<Rightarrow>
                   (let newVersion = adjustVersionPart currentVersion p direction;
                        result = updatePackageVersion jsonParse w packagePath newVersion
                    in if snd result
                       then (fst result, Inr (VersionUpdated (formatVersion currentVersion)
                                                (formatVersion newVersion)))
                       else (fst result, Inr UpdateFailed))))"

text \<open>
  \<open>handleCopyTo\<close>: the target path must not be empty (\<open>PathSchema\<close>) and the options
  must pass their schema; then the manifest is found and its version read, and the
  rest is \<open>copyToFiles\<close>.
\<close>

definition handleCopyTo ::
  "(string \<Rightarrow> json option) \<Rightarrow> (string \<Rightarrow> string \<Rightarrow> string \<Rightarrow> string option) \<Rightarrow> world \<Rightarrow> path
     \<Rightarrow> path \<Rightarrow> Options \<Rightarrow> world \<times> (refusal + outcome)"
where
  "handleCopyTo jsonParse rx w cwd targetPath options =
     (if targetPath = [] \<or> \<not> OptionsSchema options then (w, Inl InvalidParameters)
      else
        case manifestPath w cwd options of
          None \<Rightarrow> (w, Inl NoManifest)
        | Some packagePath \<Rightarrow>
            if \<not> validatePath w packagePath then (w, Inl InvalidManifestPath)
            else
              (case readPackageVersion jsonParse w packagePath of
                 None \<Rightarrow> (w, Inl NoVersion)
               | Some version \<Rightarrow>
                   (let result = copyToFiles rx w targetPath (opt_subject options) version
                    in (fst result, Inr (snd result)))))"

subsection \<open>An example manifest\<close>

text \<open>A parser that knows one document, and the file system that holds it.\<close>

definition manifestText :: string where
  "manifestText = ''{\"name\":\"x\",\"version\":\"1.2.3\"}''"

definition exampleParse :: "string \<Rightarrow> json option" where
  "exampleParse s =
     (if s = manifestText
      then Some (JObject [(''name'', JString ''x''), (''version'', JString ''1.2.3'')])
      else None)"

definition manifestWorld :: world where
  "manifestWorld =
     \<lparr>files = [''/project/package.json''
                 \<mapsto> \<lparr>content = manifestText, readable = True, writable = True\<rparr>],
      dirs = [''/project'' \<mapsto> [''/project/package.json'']],
      written = [], warnings = []\<rparr>"

text \<open>A file system with that manifest put beside its files.\<close>

definition withManifest :: "world \<Rightarrow> world" where
  "withManifest w =
     w\<lparr>files := (files w)(''/project/package.json''
                 \<mapsto> \<lparr>content = manifestText, readable = True, writable = True\<rparr>)\<rparr>"

text \<open>Options with both flags set, and options with none.\<close>

definition bothFlags :: Options where
  "bothFlags = \<lparr>opt_package = None, opt_type = None, opt_subject = None,
                opt_up = Some True, opt_down = Some True\<rparr>"

definition noFlags :: Options where
  "noFlags = \<lparr>opt_package = None, opt_type = None, opt_subject = None,
              opt_up = None, opt_down = None\<rparr>"

section \<open>Numbers and digits\<close>











section \<open>Parsing what was formatted, formatting what was parsed\<close>

lemma buildGroup_nonempty: "buildGroup s = Some (Some b) \<Longrightarrow> b \<noteq> []"
  by (auto simp: buildGroup_def split: list.splits if_splits)











section \<open>The rewriting loop, candidate by candidate\<close>

lemma rewriteFile_step:
  "rewriteFile rx s v (w, k) p =
     (case candidateFate rx s v w p of
        Failed \<Rightarrow> (w\<lparr>warnings := warnings w @ [''Failed to update '' @ p]\<rparr>, k)
      | Untouched \<Rightarrow> (w, k)
      | Rewritten c \<Rightarrow>
          (w\<lparr>files := (files w)(p := map_option (\<lambda>f. f\<lparr>content := c\<rparr>) (files w p)),
             written := written w @ [(p, c)]\<rparr>, k + 1))"
  by (auto simp: rewriteFile_def candidateFate_def Let_def readFileSync_def writeFileSync_def
      split: sum.splits option.splits if_splits)

lemma candidateFate_frame:
  "files w1 q = files w q \<Longrightarrow> candidateFate rx s v w1 q = candidateFate rx s v w q"
  by (auto simp: candidateFate_def readFileSync_def writeFileSync_def
      split: sum.splits option.splits if_splits)

lemma rewriteFile_frame:
  "q \<noteq> p \<Longrightarrow> files (fst (rewriteFile rx s v (w, k) p)) q = files w q"
  by (simp add: rewriteFile_step split: fate.splits)

lemma rewriteLoop:
  assumes "distinct ps"
  shows "foldl (rewriteFile rx s v) (w, k) ps =
     (w\<lparr>files := filesAfter (candidateFate rx s v w) ps (files w),
        written := written w @ writesFor (candidateFate rx s v w) ps,
        warnings := warnings w @ warningsFor (candidateFate rx s v w) ps\<rparr>,
      k + length (writesFor (candidateFate rx s v w) ps))"
  using assms
proof (induction ps arbitrary: w k)
  case Nil
  show ?case by (simp add: filesAfter_def writesFor_def warningsFor_def)
next
  case (Cons p ps)
  obtain w1 k1 where step: "rewriteFile rx s v (w, k) p = (w1, k1)" by force
  from Cons.prems have d: "distinct ps" and np: "p \<notin> set ps" by simp_all
  have same: "candidateFate rx s v w1 q = candidateFate rx s v w q" if "q \<in> set ps" for q
  proof -
    from that np have "q \<noteq> p" by auto
    then have "files w1 q = files w q" using rewriteFile_frame[of q p rx s v w k] step by simp
    then show ?thesis by (rule candidateFate_frame)
  qed
  have ne: "q \<noteq> p" if "q \<in> set ps" for q using that np by auto
  have wf: "writesFor (candidateFate rx s v w1) ps = writesFor (candidateFate rx s v w) ps"
    unfolding writesFor_def map_filter_def using same by (auto intro!: map_cong filter_cong)
  have wa: "warningsFor (candidateFate rx s v w1) ps = warningsFor (candidateFate rx s v w) ps"
    unfolding warningsFor_def using same by (auto intro!: map_cong filter_cong)
  have fa: "filesAfter (candidateFate rx s v w1) ps fs = filesAfter (candidateFate rx s v w) ps fs" for fs
    unfolding filesAfter_def using same by (auto simp: fun_eq_iff)
  have "foldl (rewriteFile rx s v) (w, k) (p # ps) = foldl (rewriteFile rx s v) (w1, k1) ps"
    by (simp add: step)
  also have "\<dots> = (w1\<lparr>files := filesAfter (candidateFate rx s v w) ps (files w1),
        written := written w1 @ writesFor (candidateFate rx s v w) ps,
        warnings := warnings w1 @ warningsFor (candidateFate rx s v w) ps\<rparr>,
      k1 + length (writesFor (candidateFate rx s v w) ps))"
    using Cons.IH[OF d, of w1 k1] by (simp add: wf wa fa)
  also have "\<dots> = (w\<lparr>files := filesAfter (candidateFate rx s v w) (p # ps) (files w),
        written := written w @ writesFor (candidateFate rx s v w) (p # ps),
        warnings := warnings w @ warningsFor (candidateFate rx s v w) (p # ps)\<rparr>,
      k + length (writesFor (candidateFate rx s v w) (p # ps)))"
  proof (cases "candidateFate rx s v w p")
    case (Rewritten c)
    with step have w1: "w1 = w\<lparr>files := (files w)(p := map_option (\<lambda>f. f\<lparr>content := c\<rparr>) (files w p)),
             written := written w @ [(p, c)]\<rparr>" and k1: "k1 = k + 1"
      by (simp_all add: rewriteFile_step)
    have "filesAfter (candidateFate rx s v w) ps (files w1) = filesAfter (candidateFate rx s v w) (p # ps) (files w)"
      using np Rewritten ne by (auto simp: filesAfter_def w1 fun_eq_iff split: fate.splits)
    then show ?thesis using Rewritten
      by (simp add: w1 k1 writesFor_def warningsFor_def)
  next
    case Untouched
    with step have w1: "w1 = w" and k1: "k1 = k" by (simp_all add: rewriteFile_step)
    have "filesAfter (candidateFate rx s v w) ps (files w) = filesAfter (candidateFate rx s v w) (p # ps) (files w)"
      using np Untouched ne by (auto simp: filesAfter_def fun_eq_iff split: fate.splits)
    then show ?thesis using Untouched
      by (simp add: w1 k1 writesFor_def warningsFor_def)
  next
    case Failed
    with step have w1: "w1 = w\<lparr>warnings := warnings w @ [''Failed to update '' @ p]\<rparr>" and k1: "k1 = k"
      by (simp_all add: rewriteFile_step)
    have "filesAfter (candidateFate rx s v w) ps (files w) = filesAfter (candidateFate rx s v w) (p # ps) (files w)"
      using np Failed ne by (auto simp: filesAfter_def fun_eq_iff split: fate.splits)
    then show ?thesis using Failed
      by (simp add: w1 k1 writesFor_def warningsFor_def)
  qed
  finally show ?case .
qed

section \<open>Patterns without syntax characters replace literally\<close>












section \<open>The copy command on accessible files\<close>





section \<open>Writing a file, setting a property\<close>

lemma writeFileSync_Inr:
  "writeFileSync w p c = Inr w' \<Longrightarrow>
     textOf w' p = c \<and> written w' = written w @ [(p, c)]
     \<and> (\<forall>q. q \<noteq> p \<longrightarrow> files w' q = files w q)"
  by (auto simp: writeFileSync_def textOf_def split: option.splits if_splits)

lemma update_other:
  "k \<noteq> ''version'' \<Longrightarrow> map_of (AList.update ''version'' v kvs) k = map_of kvs k"
  by (simp add: AList.update_conv')

lemma update_keys:
  "map fst (AList.update k v kvs)
     = (if k \<in> fst ` set kvs then map fst kvs else map fst kvs @ [k])"
  by (induction kvs) auto

section \<open>The copy command once the version is read\<close>

lemma handleCopyTo_resolved:
  assumes "targetPath \<noteq> []" and "OptionsSchema options"
    and "manifestPath w cwd options = Some packagePath"
    and "validatePath w packagePath"
    and "readPackageVersion jsonParse w packagePath = Some version"
  shows "handleCopyTo jsonParse rx w cwd targetPath options =
     (fst (copyToFiles rx w targetPath (opt_subject options) version),
      Inr (snd (copyToFiles rx w targetPath (opt_subject options) version)))"
  using assms by (simp add: handleCopyTo_def Let_def)

lemma exampleParse_version:
  "files w ''/project/package.json''
     = Some \<lparr>content = manifestText, readable = True, writable = True\<rparr> \<Longrightarrow>
   readPackageVersion exampleParse w ''/project/package.json''
     = Some \<lparr>major = 1, minor = 2, patch = 3, build = None\<rparr>"
  by (simp add: readPackageVersion_def readFileSync_def exampleParse_def
      getVersionField_def parseVersion_def digitGroup_def literalDot_def buildGroup_def
      isDigit_def parseInt_def digitVal_def SemanticVersionSchema_def)

lemma formatVersion_123:
  "formatVersion \<lparr>major = 1, minor = 2, patch = 3, build = None\<rparr> = ''1.2.3''"
  by (simp add: formatVersion_def numberToString_def showNat.simps digitChar_def)

section \<open>Claims about the version model\<close>






text \<open>
  C6. The build field of the adjusted version is the build field of the version, for
  every part and both directions.
\<close>

theorem adjustVersionPart_build:
  "build (adjustVersionPart v p d) = build v"
proof (cases d)
  case Up
  then show ?thesis
    by (cases p) (simp_all add: adjustVersionPart_def getPart_def setPart_def)
next
  case Down
  then show ?thesis
    by (cases p) (simp_all add: adjustVersionPart_def getPart_def setPart_def)
qed

theorem adjustVersionPart_build_witness:
  "build (adjustVersionPart \<lparr>major = 1, minor = 2, patch = 3, build = Some ''beta.1''\<rparr> Major Up)
     = Some ''beta.1''
   \<and> build (adjustVersionPart \<lparr>major = 1, minor = 2, patch = 0, build = None\<rparr> Patch Down) = None"
  using adjustVersionPart_build [of "\<lparr>major = 1, minor = 2, patch = 3, build = Some ''beta.1''\<rparr>" Major Up]
    adjustVersionPart_build [of "\<lparr>major = 1, minor = 2, patch = 0, build = None\<rparr>" Patch Down]
  by simp

text \<open>
  C9. The invariant of the data model (the three numbers non-negative, a build tag
  never the empty string) holds of every version that \<open>parseVersion\<close> returns and of
  every version read from a manifest, and \<open>adjustVersionPart\<close> keeps it, for every
  part and direction. \<open>adjustVersionPart\<close> has no failing path: it returns a version
  on every input.
\<close>

theorem version_invariant:
  "(parseVersion s = Some v \<longrightarrow> validVersion v)
   \<and> (readPackageVersion jsonParse fs packagePath = Some u \<longrightarrow> validVersion u)
   \<and> (validVersion w \<longrightarrow> validVersion (adjustVersionPart w p d))"
proof (intro conjI impI)
  have parsed: "validVersion x" if "parseVersion t = Some x" for t x
    using that
    by (auto simp: parseVersion_def validVersion_def Let_def dest: buildGroup_nonempty
        split: Option.bind_splits if_splits prod.splits)
  {
    assume "parseVersion s = Some v"
    then show "validVersion v" by (rule parsed)
  next
    assume "readPackageVersion jsonParse fs packagePath = Some u"
    then obtain t where "parseVersion t = Some u"
      by (auto simp: readPackageVersion_def split: sum.splits option.splits json.splits if_splits)
    then show "validVersion u" by (rule parsed)
  next
    assume "validVersion w"
    then show "validVersion (adjustVersionPart w p d)"
      by (cases p; cases d)
        (auto simp: validVersion_def SemanticVersionSchema_def adjustVersionPart_def
          getPart_def setPart_def)
  }
qed

theorem version_invariant_witness:
  "parseVersion ''1.2.3-beta.1'' = Some \<lparr>major = 1, minor = 2, patch = 3, build = Some ''beta.1''\<rparr>
   \<and> validVersion \<lparr>major = 1, minor = 2, patch = 3, build = Some ''beta.1''\<rparr>
   \<and> readPackageVersion exampleParse manifestWorld ''/project/package.json''
       = Some \<lparr>major = 1, minor = 2, patch = 3, build = None\<rparr>
   \<and> validVersion \<lparr>major = 1, minor = 2, patch = 3, build = None\<rparr>
   \<and> validVersion \<lparr>major = 0, minor = 2, patch = 3, build = None\<rparr>
   \<and> validVersion (adjustVersionPart \<lparr>major = 0, minor = 2, patch = 3, build = None\<rparr> Major Down)"
proof -
  have p: "parseVersion ''1.2.3-beta.1'' = Some \<lparr>major = 1, minor = 2, patch = 3, build = Some ''beta.1''\<rparr>"
    by (simp add: parseVersion_def digitGroup_def literalDot_def buildGroup_def isDigit_def
        isLineTerminator_def parseInt_def digitVal_def SemanticVersionSchema_def)
  have r: "readPackageVersion exampleParse manifestWorld ''/project/package.json''
       = Some \<lparr>major = 1, minor = 2, patch = 3, build = None\<rparr>"
    by (rule exampleParse_version) (simp add: manifestWorld_def)
  have w: "validVersion \<lparr>major = 0, minor = 2, patch = 3, build = None\<rparr>"
    by (simp add: validVersion_def SemanticVersionSchema_def)
  show ?thesis
    using p r w
      version_invariant [of "''1.2.3-beta.1''"
        "\<lparr>major = 1, minor = 2, patch = 3, build = Some ''beta.1''\<rparr>"
        exampleParse manifestWorld "''/project/package.json''"
        "\<lparr>major = 1, minor = 2, patch = 3, build = None\<rparr>"
        "\<lparr>major = 0, minor = 2, patch = 3, build = None\<rparr>" Major Down]
    by simp
qed

section \<open>Claims about the copy command\<close>

text \<open>
  C1, at a placeholder with a syntax character. The manifest has version \<open>1.2.3\<close>,
  the target file holds \<open>0.0.0 / 100000\<close> and the placeholder is \<open>0.0.0\<close>. It
  occurs in the file, so the file is kept; the rewriting loop reads the placeholder
  as a pattern, whose dots match any character, and replaces \<open>00000\<close> too. The
  literal replacement the claim describes leaves \<open>100000\<close> alone.
\<close>

theorem placeholder_read_as_pattern:
  "stringIncludes ''0.0.0 / 100000'' ''0.0.0''
   \<and> written (fst (handleCopyTo exampleParse regExpReplace
                      (withManifest (oneFileWorld ''0.0.0 / 100000'')) ''/project'' ''a.txt''
                      (noFlags\<lparr>opt_subject := Some ''0.0.0''\<rparr>)))
       = [(''a.txt'', ''1.2.3 / 11.2.3'')]
   \<and> literalReplaceAll ''0.0.0'' ''1.2.3'' ''0.0.0 / 100000'' = ''1.2.3 / 100000''"
proof -
  let ?w = "withManifest (oneFileWorld ''0.0.0 / 100000'')"
  let ?o = "noFlags\<lparr>opt_subject := Some ''0.0.0''\<rparr>"
  have rr: "regExpReplace ''0.0.0'' ''1.2.3'' ''0.0.0 / 100000'' = Some ''1.2.3 / 11.2.3''"
    by (simp add: regExpReplace_def compilePattern_def isSyntaxCharacter_def
        replaceMatches.simps isLineTerminator_def)
  have p: "manifestPath ?w ''/project'' ?o = Some ''/project/package.json''"
    by (simp add: manifestPath_def noFlags_def findPackageJson_def withManifest_def)
  have v: "readPackageVersion exampleParse ?w ''/project/package.json''
      = Some \<lparr>major = 1, minor = 2, patch = 3, build = None\<rparr>"
    by (rule exampleParse_version) (simp add: withManifest_def)
  have h: "handleCopyTo exampleParse regExpReplace ?w ''/project'' ''a.txt'' ?o
      = (fst (copyToFiles regExpReplace ?w ''a.txt'' (opt_subject ?o)
               \<lparr>major = 1, minor = 2, patch = 3, build = None\<rparr>),
         Inr (snd (copyToFiles regExpReplace ?w ''a.txt'' (opt_subject ?o)
               \<lparr>major = 1, minor = 2, patch = 3, build = None\<rparr>)))"
    by (rule handleCopyTo_resolved [OF _ _ p _ v])
      (simp_all add: OptionsSchema_def noFlags_def validatePath_def withManifest_def)
  have "written (fst (copyToFiles regExpReplace ?w ''a.txt'' (opt_subject ?o)
               \<lparr>major = 1, minor = 2, patch = 3, build = None\<rparr>))
      = [(''a.txt'', ''1.2.3 / 11.2.3'')]"
    by (simp add: copyToFiles_def withManifest_def oneFileWorld_def effectiveSubject_def
        readFileSync_def formatVersion_123 rr rewriteFiles_def rewriteFile_def
        writeFileSync_def Let_def)
  then show ?thesis
    by (simp add: h literalReplaceAll.simps)
qed

text \<open>
  C2, at a directory whose first file cannot be read. The read of the filtering loop
  throws, the outer \<open>catch\<close> ends the invocation, and the file system is as it was:
  the second file, which has the placeholder and is accessible, is not rewritten.
\<close>

theorem filtering_read_failure_aborts:
  "handleCopyTo exampleParse regExpReplace (withManifest mixedWorld) ''/project'' ''proj'' noFlags
     = (withManifest mixedWorld, Inr (CopyFailed EACCES))"
proof -
  let ?w = "withManifest mixedWorld"
  have p: "manifestPath ?w ''/project'' noFlags = Some ''/project/package.json''"
    by (simp add: manifestPath_def noFlags_def findPackageJson_def withManifest_def)
  have v: "readPackageVersion exampleParse ?w ''/project/package.json''
      = Some \<lparr>major = 1, minor = 2, patch = 3, build = None\<rparr>"
    by (rule exampleParse_version) (simp add: withManifest_def)
  have h: "handleCopyTo exampleParse regExpReplace ?w ''/project'' ''proj'' noFlags
      = (fst (copyToFiles regExpReplace ?w ''proj'' (opt_subject noFlags)
               \<lparr>major = 1, minor = 2, patch = 3, build = None\<rparr>),
         Inr (snd (copyToFiles regExpReplace ?w ''proj'' (opt_subject noFlags)
               \<lparr>major = 1, minor = 2, patch = 3, build = None\<rparr>)))"
    by (rule handleCopyTo_resolved [OF _ _ p _ v])
      (simp_all add: OptionsSchema_def noFlags_def validatePath_def withManifest_def)
  have "copyToFiles regExpReplace ?w ''proj'' (opt_subject noFlags)
               \<lparr>major = 1, minor = 2, patch = 3, build = None\<rparr>
      = (?w, CopyFailed EACCES)"
    by (simp add: copyToFiles_def withManifest_def mixedWorld_def readFileSync_def
        effectiveSubject_def noFlags_def)
  then show ?thesis by (simp add: h)
qed




text \<open>
  C7. For distinct candidates, whatever the pattern replacement of the host does: the
  loop ends with one warning for each candidate whose read, replacement or write
  throws, in the order of the candidates and however many failed before; the files
  whose write succeeded hold their new text at the end, and every other file is as
  it was; the writes recorded are exactly those, and the count returned is their
  number.
\<close>

theorem rewriting_isolates_failures:
  assumes "distinct filesToUpdate"
  shows "rewriteFiles rx subject versionString w filesToUpdate =
     (w\<lparr>files := filesAfter (candidateFate rx subject versionString w) filesToUpdate (files w),
        written := written w @ writesFor (candidateFate rx subject versionString w) filesToUpdate,
        warnings := warnings w @ warningsFor (candidateFate rx subject versionString w) filesToUpdate\<rparr>,
      length (writesFor (candidateFate rx subject versionString w) filesToUpdate))"
  using rewriteLoop [OF assms, of rx subject versionString w 0]
  by (simp add: rewriteFiles_def)

theorem rewriting_isolates_failures_witness:
  "distinct [''proj/a.txt'', ''proj/b.txt'', ''proj/c.txt'']
   \<and> snd (rewriteFiles regExpReplace ''__VERSION__'' ''1.2.3'' mixedWorld
             [''proj/a.txt'', ''proj/b.txt'', ''proj/c.txt'']) = 1
   \<and> warnings (fst (rewriteFiles regExpReplace ''__VERSION__'' ''1.2.3'' mixedWorld
             [''proj/a.txt'', ''proj/b.txt'', ''proj/c.txt'']))
       = [''Failed to update proj/a.txt'', ''Failed to update proj/c.txt'']
   \<and> written (fst (rewriteFiles regExpReplace ''__VERSION__'' ''1.2.3'' mixedWorld
             [''proj/a.txt'', ''proj/b.txt'', ''proj/c.txt'']))
       = [(''proj/b.txt'', ''b = 1.2.3'')]
   \<and> textOf (fst (rewriteFiles regExpReplace ''__VERSION__'' ''1.2.3'' mixedWorld
             [''proj/a.txt'', ''proj/b.txt'', ''proj/c.txt''])) ''proj/b.txt'' = ''b = 1.2.3''"
proof -
  have d: "distinct [''proj/a.txt'', ''proj/b.txt'', ''proj/c.txt'']" by simp
  have fates:
    "candidateFate regExpReplace ''__VERSION__'' ''1.2.3'' mixedWorld ''proj/a.txt'' = Failed"
    "candidateFate regExpReplace ''__VERSION__'' ''1.2.3'' mixedWorld ''proj/b.txt''
       = Rewritten ''b = 1.2.3''"
    "candidateFate regExpReplace ''__VERSION__'' ''1.2.3'' mixedWorld ''proj/c.txt'' = Failed"
    by (simp_all add: candidateFate_def mixedWorld_def readFileSync_def writeFileSync_def
        regExpReplace_def compilePattern_def isSyntaxCharacter_def replaceMatches.simps)
  have m: "warnings mixedWorld = []" "written mixedWorld = []"
    "files mixedWorld ''proj/b.txt''
       = Some \<lparr>content = ''b = __VERSION__'', readable = True, writable = True\<rparr>"
    by (simp_all add: mixedWorld_def)
  show ?thesis
    using d rewriting_isolates_failures [OF d, of regExpReplace "''__VERSION__''" "''1.2.3''" mixedWorld]
    by (simp add: fates m warningsFor_def writesFor_def filesAfter_def textOf_def)
qed

section \<open>Claims about the manifest and the version commands\<close>

text \<open>
  C8. \<open>updatePackageVersion\<close> returns true exactly when the read, the parse, the
  assignment and the write all succeed, and it leaves the file system as it was when
  it returns false. When it returns true on a manifest that is a JSON object, the
  text written is the serialization, indented by two spaces and ended by a newline,
  of an object whose \<open>version\<close> is the formatted version, whose other properties
  are those of the manifest, and whose keys stand in the manifest's order (with
  \<open>version\<close> added last when the manifest had none).
\<close>

theorem updatePackageVersion_frame:
  "(updatePackageVersion jsonParse w packagePath version = (w', ok) \<longrightarrow>
      (ok \<longleftrightarrow> (\<exists>text packageJson updated.
                readFileSync w packagePath = Inr text
              \<and> jsonParse text = Some packageJson
              \<and> setVersionField packageJson (formatVersion version) = Inr updated
              \<and> isl (writeFileSync w packagePath (JSONstringify updated @ [CHR 0x0A])) = False))
      \<and> (\<not> ok \<longrightarrow> w' = w))
   \<and> (updatePackageVersion jsonParse w packagePath version = (w', True)
        \<and> readFileSync w packagePath = Inr text \<and> jsonParse text = Some (JObject kvs) \<longrightarrow>
        (\<exists>kvs'. textOf w' packagePath = JSONstringify (JObject kvs') @ [CHR 0x0A]
           \<and> written w' = written w @ [(packagePath, JSONstringify (JObject kvs') @ [CHR 0x0A])]
           \<and> map_of kvs' ''version'' = Some (JString (formatVersion version))
           \<and> (\<forall>k. k \<noteq> ''version'' \<longrightarrow> map_of kvs' k = map_of kvs k)
           \<and> map fst kvs' = (if ''version'' \<in> fst ` set kvs then map fst kvs
                              else map fst kvs @ [''version''])))"
proof (intro conjI impI)
  assume r: "updatePackageVersion jsonParse w packagePath version = (w', ok)"
  then show "ok \<longleftrightarrow> (\<exists>text packageJson updated.
                readFileSync w packagePath = Inr text
              \<and> jsonParse text = Some packageJson
              \<and> setVersionField packageJson (formatVersion version) = Inr updated
              \<and> isl (writeFileSync w packagePath (JSONstringify updated @ [CHR 0x0A])) = False)"
    by (auto simp: updatePackageVersion_def split: sum.splits option.splits)
  assume "\<not> ok"
  with r show "w' = w"
    by (auto simp: updatePackageVersion_def split: sum.splits option.splits)
next
  assume a: "updatePackageVersion jsonParse w packagePath version = (w', True)
        \<and> readFileSync w packagePath = Inr text \<and> jsonParse text = Some (JObject kvs)"
  let ?kvs' = "AList.update ''version'' (JString (formatVersion version)) kvs"
  from a have wr: "writeFileSync w packagePath (JSONstringify (JObject ?kvs') @ [CHR 0x0A]) = Inr w'"
    by (auto simp: updatePackageVersion_def setVersionField_def split: sum.splits)
  have "map_of ?kvs' ''version'' = Some (JString (formatVersion version))"
    by (simp add: AList.update_conv')
  moreover have "\<forall>k. k \<noteq> ''version'' \<longrightarrow> map_of ?kvs' k = map_of kvs k"
    by (simp add: update_other)
  moreover note update_keys[of "''version''" "JString (formatVersion version)" kvs]
  ultimately show "\<exists>kvs'. textOf w' packagePath = JSONstringify (JObject kvs') @ [CHR 0x0A]
           \<and> written w' = written w @ [(packagePath, JSONstringify (JObject kvs') @ [CHR 0x0A])]
           \<and> map_of kvs' ''version'' = Some (JString (formatVersion version))
           \<and> (\<forall>k. k \<noteq> ''version'' \<longrightarrow> map_of kvs' k = map_of kvs k)
           \<and> map fst kvs' = (if ''version'' \<in> fst ` set kvs then map fst kvs
                              else map fst kvs @ [''version''])"
    using writeFileSync_Inr[OF wr] by blast
qed

text \<open>
  The manifest \<open>{"name":"x","version":"1.2.3"}\<close>, updated to \<open>2.0.0\<close>: the call
  returns true, and the file holds the object on four lines, the name untouched.
\<close>

theorem updatePackageVersion_frame_witness:
  "updatePackageVersion exampleParse manifestWorld ''/project/package.json''
       \<lparr>major = 2, minor = 0, patch = 0, build = None\<rparr>
     = (fst (updatePackageVersion exampleParse manifestWorld ''/project/package.json''
               \<lparr>major = 2, minor = 0, patch = 0, build = None\<rparr>), True)
   \<and> readFileSync manifestWorld ''/project/package.json'' = Inr manifestText
   \<and> exampleParse manifestText
       = Some (JObject [(''name'', JString ''x''), (''version'', JString ''1.2.3'')])
   \<and> textOf (fst (updatePackageVersion exampleParse manifestWorld ''/project/package.json''
                    \<lparr>major = 2, minor = 0, patch = 0, build = None\<rparr>)) ''/project/package.json''
       = ''{\<newline>  \"name\": \"x\",\<newline>  \"version\": \"2.0.0\"\<newline>}\<newline>''
   \<and> (\<exists>kvs'. textOf (fst (updatePackageVersion exampleParse manifestWorld
                              ''/project/package.json''
                              \<lparr>major = 2, minor = 0, patch = 0, build = None\<rparr>))
                 ''/project/package.json''
               = JSONstringify (JObject kvs') @ [CHR 0x0A]
           \<and> map_of kvs' ''version''
               = Some (JString (formatVersion \<lparr>major = 2, minor = 0, patch = 0, build = None\<rparr>))
           \<and> map_of kvs' ''name'' = Some (JString ''x''))"
proof -
  let ?v = "\<lparr>major = 2, minor = 0, patch = 0, build = None\<rparr>"
  let ?run = "updatePackageVersion exampleParse manifestWorld ''/project/package.json'' ?v"
  have fv: "formatVersion ?v = ''2.0.0''"
    by (simp add: formatVersion_def numberToString_def showNat.simps digitChar_def)
  have run: "?run
     = (manifestWorld\<lparr>files := [''/project/package.json'' \<mapsto>
            \<lparr>content = ''{\<newline>  \"name\": \"x\",\<newline>  \"version\": \"2.0.0\"\<newline>}\<newline>'',
               readable = True, writable = True\<rparr>],
         written := [(''/project/package.json'',
            ''{\<newline>  \"name\": \"x\",\<newline>  \"version\": \"2.0.0\"\<newline>}\<newline>'')]\<rparr>, True)"
    by (simp add: updatePackageVersion_def manifestWorld_def readFileSync_def exampleParse_def
        setVersionField_def fv JSONstringify_def quoteJSONString_def quoteChar_def
        writeFileSync_def)
  have h1: "?run = (fst ?run, True)" by (simp add: run)
  have h2: "readFileSync manifestWorld ''/project/package.json'' = Inr manifestText"
    by (simp add: readFileSync_def manifestWorld_def)
  have h3: "exampleParse manifestText
       = Some (JObject [(''name'', JString ''x''), (''version'', JString ''1.2.3'')])"
    by (simp add: exampleParse_def)
  have t: "textOf (fst ?run) ''/project/package.json''
       = ''{\<newline>  \"name\": \"x\",\<newline>  \"version\": \"2.0.0\"\<newline>}\<newline>''"
    by (simp add: run textOf_def)
  have n: "map_of [(''name'', JString ''x''), (''version'', JString ''1.2.3'')] ''name''
       = Some (JString ''x'')" by simp
  from updatePackageVersion_frame [of exampleParse manifestWorld "''/project/package.json''" ?v
      "fst ?run" True manifestText "[(''name'', JString ''x''), (''version'', JString ''1.2.3'')]"]
    h1 h2 h3
  obtain kvs' where k: "textOf (fst ?run) ''/project/package.json''
               = JSONstringify (JObject kvs') @ [CHR 0x0A]"
           "map_of kvs' ''version'' = Some (JString (formatVersion ?v))"
           "\<forall>k. k \<noteq> ''version'' \<longrightarrow>
               map_of kvs' k = map_of [(''name'', JString ''x''), (''version'', JString ''1.2.3'')] k"
    by blast
  from k(3) n have "map_of kvs' ''name'' = Some (JString ''x'')" by simp
  with k(1,2) h1 h2 h3 t show ?thesis by blast
qed

text \<open>
  C10. The direction is down exactly when \<open>options.down\<close> is true, and up in every
  other case, whatever \<open>options.up\<close> is; and it is the direction the handler adjusts
  with: when the command reports an update, the new version is the current one
  adjusted in that direction.
\<close>

theorem direction_from_down_flag:
  "(chosenDirection options = Down \<longleftrightarrow> opt_down options = Some True)
   \<and> (chosenDirection options = Up \<longleftrightarrow> opt_down options \<noteq> Some True)
   \<and> (handleUpdateVersionPart jsonParse w cwd p options = (w', Inr (VersionUpdated old new)) \<longrightarrow>
        (\<exists>packagePath currentVersion.
            manifestPath w cwd options = Some packagePath
          \<and> readPackageVersion jsonParse w packagePath = Some currentVersion
          \<and> old = formatVersion currentVersion
          \<and> new = formatVersion (adjustVersionPart currentVersion p
                     (if opt_down options = Some True then Down else Up))))"
proof (intro conjI impI)
  show "chosenDirection options = Down \<longleftrightarrow> opt_down options = Some True"
    by (simp add: chosenDirection_def)
  show "chosenDirection options = Up \<longleftrightarrow> opt_down options \<noteq> Some True"
    by (simp add: chosenDirection_def)
next
  assume "handleUpdateVersionPart jsonParse w cwd p options = (w', Inr (VersionUpdated old new))"
  then show "\<exists>packagePath currentVersion.
            manifestPath w cwd options = Some packagePath
          \<and> readPackageVersion jsonParse w packagePath = Some currentVersion
          \<and> old = formatVersion currentVersion
          \<and> new = formatVersion (adjustVersionPart currentVersion p
                     (if opt_down options = Some True then Down else Up))"
    by (auto simp: chosenDirection_def handleUpdateVersionPart_def Let_def
        split: option.splits if_splits)
qed

text \<open>
  With both flags the direction is down, and the major command takes \<open>1.2.3\<close> to
  \<open>0.2.3\<close>; with no flag the direction is up.
\<close>

theorem direction_from_down_flag_witness:
  "opt_up bothFlags = Some True \<and> opt_down bothFlags = Some True
   \<and> chosenDirection bothFlags = Down
   \<and> opt_up noFlags = None \<and> opt_down noFlags = None
   \<and> chosenDirection noFlags = Up
   \<and> handleUpdateVersionPart exampleParse manifestWorld ''/project'' Major bothFlags
       = (fst (handleUpdateVersionPart exampleParse manifestWorld ''/project'' Major bothFlags),
          Inr (VersionUpdated ''1.2.3'' ''0.2.3''))
   \<and> (\<exists>packagePath currentVersion.
          manifestPath manifestWorld ''/project'' bothFlags = Some packagePath
        \<and> readPackageVersion exampleParse manifestWorld packagePath = Some currentVersion
        \<and> ''1.2.3'' = formatVersion currentVersion
        \<and> ''0.2.3'' = formatVersion (adjustVersionPart currentVersion Major
                          (if opt_down bothFlags = Some True then Down else Up)))"
proof -
  let ?run = "handleUpdateVersionPart exampleParse manifestWorld ''/project'' Major bothFlags"
  have cur: "readPackageVersion exampleParse manifestWorld ''/project/package.json''
      = Some \<lparr>major = 1, minor = 2, patch = 3, build = None\<rparr>"
    by (simp add: readPackageVersion_def readFileSync_def manifestWorld_def exampleParse_def
        getVersionField_def parseVersion_def digitGroup_def literalDot_def buildGroup_def
        isDigit_def parseInt_def digitVal_def SemanticVersionSchema_def)
  have fv: "formatVersion \<lparr>major = 1, minor = 2, patch = 3, build = None\<rparr> = ''1.2.3''"
    "formatVersion \<lparr>major = 0, minor = 2, patch = 3, build = None\<rparr> = ''0.2.3''"
    by (simp_all add: formatVersion_def numberToString_def showNat.simps digitChar_def)
  have path: "manifestPath manifestWorld ''/project'' bothFlags = Some ''/project/package.json''"
    by (simp add: manifestPath_def bothFlags_def findPackageJson_def manifestWorld_def)
  have upd: "snd (updatePackageVersion exampleParse manifestWorld ''/project/package.json''
                \<lparr>major = 0, minor = 2, patch = 3, build = None\<rparr>)"
    by (simp add: updatePackageVersion_def manifestWorld_def readFileSync_def exampleParse_def
        setVersionField_def writeFileSync_def)
  have flags: "opt_up bothFlags = Some True" "opt_down bothFlags = Some True"
    "opt_up noFlags = None" "opt_down noFlags = None"
    by (simp_all add: bothFlags_def noFlags_def)
  have d: "chosenDirection bothFlags = Down"
    using direction_from_down_flag [of bothFlags] flags by simp
  have u: "chosenDirection noFlags = Up"
    using direction_from_down_flag [of noFlags] flags by simp
  have adj: "adjustVersionPart \<lparr>major = 1, minor = 2, patch = 3, build = None\<rparr> Major Down
      = \<lparr>major = 0, minor = 2, patch = 3, build = None\<rparr>"
    by (simp add: adjustVersionPart_def getPart_def setPart_def)
  have "snd ?run = Inr (VersionUpdated ''1.2.3'' ''0.2.3'')"
    by (simp add: handleUpdateVersionPart_def OptionsSchema_def path validatePath_def cur d adj
        upd fv Let_def) (simp add: bothFlags_def manifestWorld_def)
  then have run: "?run = (fst ?run, Inr (VersionUpdated ''1.2.3'' ''0.2.3''))"
    by (metis prod.collapse)
  from direction_from_down_flag [of bothFlags exampleParse manifestWorld "''/project''" Major
      "fst ?run" "''1.2.3''" "''0.2.3''"] run
  have "\<exists>packagePath currentVersion.
          manifestPath manifestWorld ''/project'' bothFlags = Some packagePath
        \<and> readPackageVersion exampleParse manifestWorld packagePath = Some currentVersion
        \<and> ''1.2.3'' = formatVersion currentVersion
        \<and> ''0.2.3'' = formatVersion (adjustVersionPart currentVersion Major
                          (if opt_down bothFlags = Some True then Down else Up))"
    by blast
  with flags d u run show ?thesis by blast
qed

end
